theory Spec2Isabelle
  imports Complex_Main
begin

section \<open>Data model of \<^verbatim>\<open>backend/server.py\<close>\<close>

text \<open>
  Every pydantic model of the server is a record with the model's fields; a field
  \<^verbatim>\<open>f\<close> of model \<^verbatim>\<open>M\<close> carries a short prefix, since record fields are global names
  (\<^verbatim>\<open>User.id\<close> is \<open>u_id\<close>, \<^verbatim>\<open>Route.id\<close> is \<open>rt_id\<close>, ...). Identifiers are the strings
  produced by \<^verbatim>\<open>uuid.uuid4()\<close>, timestamps the strings produced by \<^verbatim>\<open>isoformat()\<close>;
  both come from outside the handlers and are arguments of the model. The stored
  document and the model object have the same fields (\<^verbatim>\<open>model_dump\<close>), so one record
  serves for both.
\<close>

record User =
  u_id :: string
  u_username :: string
  u_password_hash :: string
  u_full_name :: string
  u_role :: string
  u_badge_number :: "string option"
  u_created_at :: string

record UserCreate =
  uc_username :: string
  uc_password :: string
  uc_full_name :: string
  uc_role :: string
  uc_badge_number :: "string option"

record UserLogin =
  ul_username :: string
  ul_password :: string

record UserResponse =
  ur_id :: string
  ur_username :: string
  ur_full_name :: string
  ur_role :: string
  ur_badge_number :: "string option"

record TokenResponse =
  access_token :: string
  token_type :: string
  user :: UserResponse

text \<open>Latitude and longitude are carried through unchanged and never computed with.\<close>

record PatrolPoint =
  pp_id :: string
  pp_name :: string
  pp_description :: string
  pp_address :: string
  pp_latitude :: "real option"
  pp_longitude :: "real option"
  pp_created_at :: string

record Route =
  rt_id :: string
  rt_name :: string
  rt_description :: string
  rt_patrol_point_ids :: "string list"
  rt_created_at :: string

record RouteAssignment =
  ra_id :: string
  ra_officer_id :: string
  ra_route_id :: string
  ra_date :: string
  ra_status :: string
  ra_created_at :: string

record Attendance =
  att_id :: string
  att_officer_id :: string
  att_route_assignment_id :: string
  att_patrol_point_id :: string
  att_check_in_time :: string
  att_notes :: "string option"

record AttendanceCreate =
  ac_route_assignment_id :: string
  ac_patrol_point_id :: string
  ac_notes :: "string option"

text \<open>\<^verbatim>\<open>HTTPException(status_code=..., detail=...)\<close>; a handler that raises returns \<open>Inl\<close>.\<close>

datatype HTTPException = HTTPException nat string

section \<open>The document store\<close>

text \<open>
  \<^verbatim>\<open>db\<close> has five collections. A collection is the list of its documents in storage
  (natural) order; \<^verbatim>\<open>insert_one\<close> appends.
\<close>

record Db =
  users :: "User list"
  patrol_points :: "PatrolPoint list"
  routes :: "Route list"
  route_assignments :: "RouteAssignment list"
  attendance :: "Attendance list"

text \<open>
  \<^verbatim>\<open>find_one(query)\<close>: the first document matching the query, or \<^verbatim>\<open>None\<close>. A document
  found is a dictionary with its fields, never empty, so the handlers' tests
  \<^verbatim>\<open>if existing\<close>, \<^verbatim>\<open>if not assignment\<close>, \<^verbatim>\<open>if point\<close> are tests for \<open>Some\<close> and \<open>None\<close>.
\<close>

fun find_one :: "('a \<Rightarrow> bool) \<Rightarrow> 'a list \<Rightarrow> 'a option" where
  "find_one q [] = None"
| "find_one q (d # ds) = (if q d then Some d else find_one q ds)"

text \<open>\<^verbatim>\<open>find(query).to_list(n)\<close>: the matching documents in storage order, at most \<open>n\<close>.\<close>

definition find_to_list :: "('a \<Rightarrow> bool) \<Rightarrow> nat \<Rightarrow> 'a list \<Rightarrow> 'a list" where
  "find_to_list q n ds = take n (filter q ds)"

definition insert_one :: "'a \<Rightarrow> 'a list \<Rightarrow> 'a list" where
  "insert_one d ds = ds @ [d]"

text \<open>\<^verbatim>\<open>delete_one(query)\<close>: removes the first match; returns \<^verbatim>\<open>deleted_count\<close> too.\<close>

fun delete_one :: "('a \<Rightarrow> bool) \<Rightarrow> 'a list \<Rightarrow> nat \<times> 'a list" where
  "delete_one q [] = (0, [])"
| "delete_one q (d # ds) =
     (if q d then (1, ds)
      else (case delete_one q ds of (n, ds') \<Rightarrow> (n, d # ds')))"

text \<open>\<^verbatim>\<open>update_one(query, {"$set": ...})\<close>: applies the update to the first match.\<close>

fun update_one :: "('a \<Rightarrow> bool) \<Rightarrow> ('a \<Rightarrow> 'a) \<Rightarrow> 'a list \<Rightarrow> 'a list" where
  "update_one q upd [] = []"
| "update_one q upd (d # ds) = (if q d then upd d # ds else d # update_one q upd ds)"

definition count_documents :: "('a \<Rightarrow> bool) \<Rightarrow> 'a list \<Rightarrow> nat" where
  "count_documents q ds = length (filter q ds)"

section \<open>Auth routes\<close>

text \<open>
  \<^verbatim>\<open>register\<close>. The password hash (\<^verbatim>\<open>pwd_context.hash\<close>), the fresh uuid and the
  creation time are arguments. The handler returns its result together with the
  store it leaves behind.
\<close>

definition register ::
  "(string \<Rightarrow> string) \<Rightarrow> string \<Rightarrow> string \<Rightarrow> Db \<Rightarrow> UserCreate
     \<Rightarrow> (HTTPException + UserResponse) \<times> Db" where
  "register get_password_hash new_id now db user_data =
     (case find_one (\<lambda>u. u_username u = uc_username user_data) (users db) of
        Some existing \<Rightarrow> (Inl (HTTPException 400 ''Username already exists''), db)
      | None \<Rightarrow>
          (let password_hash = get_password_hash (uc_password user_data);
               usr = \<lparr>u_id = new_id,
                      u_username = uc_username user_data,
                      u_password_hash = password_hash,
                      u_full_name = uc_full_name user_data,
                      u_role = uc_role user_data,
                      u_badge_number = uc_badge_number user_data,
                      u_created_at = now\<rparr>
           in (Inr \<lparr>ur_id = u_id usr,
                    ur_username = u_username usr,
                    ur_full_name = u_full_name usr,
                    ur_role = u_role usr,
                    ur_badge_number = u_badge_number usr\<rparr>,
               db\<lparr>users := insert_one usr (users db)\<rparr>)))"

text \<open>
  \<^verbatim>\<open>login\<close>. \<^verbatim>\<open>verify_password\<close> and \<^verbatim>\<open>create_access_token\<close> (the signed token for
  \<^verbatim>\<open>{"sub": id}\<close>) are arguments. The store is only read.
\<close>

definition login ::
  "(string \<Rightarrow> string \<Rightarrow> bool) \<Rightarrow> (string \<Rightarrow> string) \<Rightarrow> Db \<Rightarrow> UserLogin
     \<Rightarrow> HTTPException + TokenResponse" where
  "login verify_password create_access_token db login_data =
     (case find_one (\<lambda>u. u_username u = ul_username login_data) (users db) of
        None \<Rightarrow> Inl (HTTPException 401 ''Invalid username or password'')
      | Some usr \<Rightarrow>
          if \<not> verify_password (ul_password login_data) (u_password_hash usr)
          then Inl (HTTPException 401 ''Invalid username or password'')
          else Inr \<lparr>access_token = create_access_token (u_id usr),
                    token_type = ''bearer'',
                    user = \<lparr>ur_id = u_id usr,
                             ur_username = u_username usr,
                             ur_full_name = u_full_name usr,
                             ur_role = u_role usr,
                             ur_badge_number = u_badge_number usr\<rparr>\<rparr>)"

section \<open>Patrol points and routes\<close>

text \<open>
  \<^verbatim>\<open>delete_patrol_point\<close> runs \<^verbatim>\<open>delete_one\<close> and then looks at \<^verbatim>\<open>deleted_count\<close>; its
  success value is the message. The list handlers (\<^verbatim>\<open>get_routes\<close>,
  \<^verbatim>\<open>get_route_assignments\<close>) parse each \<^verbatim>\<open>created_at\<close> string back into a datetime, which
  the response serialises again; the timestamp stays the string here.
\<close>

definition delete_patrol_point ::
  "Db \<Rightarrow> string \<Rightarrow> User \<Rightarrow> (HTTPException + string) \<times> Db" where
  "delete_patrol_point db point_id current_user =
     (if u_role current_user \<noteq> ''admin''
      then (Inl (HTTPException 403 ''Only admins can delete patrol points''), db)
      else (case delete_one (\<lambda>p. pp_id p = point_id) (patrol_points db) of
              (deleted_count, ps) \<Rightarrow>
                if deleted_count = 0
                then (Inl (HTTPException 404 ''Patrol point not found''),
                      db\<lparr>patrol_points := ps\<rparr>)
                else (Inr ''Patrol point deleted successfully'',
                      db\<lparr>patrol_points := ps\<rparr>)))"

definition get_routes :: "Db \<Rightarrow> User \<Rightarrow> Route list" where
  "get_routes db current_user = find_to_list (\<lambda>r. True) 1000 (routes db)"

section \<open>Route assignments\<close>

definition get_route_assignments :: "Db \<Rightarrow> User \<Rightarrow> RouteAssignment list" where
  "get_route_assignments db current_user =
     (let query = (if u_role current_user = ''officer''
                   then (\<lambda>a. ra_officer_id a = u_id current_user)
                   else (\<lambda>a. True))
      in find_to_list query 1000 (route_assignments db))"

text \<open>
  The loop of \<^verbatim>\<open>get_today_assignment\<close> over \<^verbatim>\<open>route["patrol_point_ids"]\<close>:
  \<^verbatim>\<open>next((p for p in patrol_points if p["id"] == point_id), None)\<close> is the first
  fetched point with that id; a point found gets the key \<^verbatim>\<open>completed\<close> (here the second
  component of a pair) and is appended. The value of \<^verbatim>\<open>completed\<close> depends on the id
  alone, so a point object reached twice is written the same value twice.
\<close>

fun ordered_points ::
  "PatrolPoint list \<Rightarrow> string list \<Rightarrow> string list \<Rightarrow> (PatrolPoint \<times> bool) list" where
  "ordered_points pts completed_point_ids [] = []"
| "ordered_points pts completed_point_ids (point_id # rest) =
     (case find_one (\<lambda>p. pp_id p = point_id) pts of
        None \<Rightarrow> ordered_points pts completed_point_ids rest
      | Some point \<Rightarrow>
          (point, point_id \<in> set completed_point_ids)
            # ordered_points pts completed_point_ids rest)"

text \<open>
  The two results of \<^verbatim>\<open>get_today_assignment\<close>: the message, or the dictionary with
  the keys \<^verbatim>\<open>assignment\<close>, \<^verbatim>\<open>route\<close> and \<^verbatim>\<open>patrol_points\<close>.
\<close>

datatype TodayResult =
  Message string
| Today RouteAssignment Route "(PatrolPoint \<times> bool) list"

text \<open>\<open>today\<close> is \<^verbatim>\<open>datetime.now(timezone.utc).strftime("%Y-%m-%d")\<close>.\<close>

definition get_today_assignment :: "string \<Rightarrow> Db \<Rightarrow> User \<Rightarrow> HTTPException + TodayResult" where
  "get_today_assignment today db current_user =
     (if u_role current_user \<noteq> ''officer''
      then Inl (HTTPException 403 ''Only officers can access this endpoint'')
      else (case find_one (\<lambda>a. ra_officer_id a = u_id current_user \<and> ra_date a = today)
                          (route_assignments db) of
              None \<Rightarrow> Inr (Message ''No route assigned for today'')
            | Some assignment \<Rightarrow>
                (case find_one (\<lambda>r. rt_id r = ra_route_id assignment) (routes db) of
                   None \<Rightarrow> Inl (HTTPException 404 ''Route not found'')
                 | Some route \<Rightarrow>
                     (let pts = find_to_list
                                  (\<lambda>p. pp_id p \<in> set (rt_patrol_point_ids route)) 1000
                                  (patrol_points db);
                          attendance_records = find_to_list
                                  (\<lambda>t. att_route_assignment_id t = ra_id assignment) 1000
                                  (attendance db);
                          completed_point_ids = map att_patrol_point_id attendance_records
                      in Inr (Today assignment route
                                (ordered_points pts completed_point_ids
                                   (rt_patrol_point_ids route)))))))"

section \<open>Attendance\<close>

definition mark_attendance ::
  "string \<Rightarrow> string \<Rightarrow> Db \<Rightarrow> AttendanceCreate \<Rightarrow> User
     \<Rightarrow> (HTTPException + Attendance) \<times> Db" where
  "mark_attendance new_id now db attendance_data current_user =
     (if u_role current_user \<noteq> ''officer''
      then (Inl (HTTPException 403 ''Only officers can mark attendance''), db)
      else (case find_one (\<lambda>a. ra_id a = ac_route_assignment_id attendance_data)
                          (route_assignments db) of
              None \<Rightarrow> (Inl (HTTPException 404 ''Route assignment not found''), db)
            | Some assignment \<Rightarrow>
                (case find_one
                        (\<lambda>t. att_route_assignment_id t = ac_route_assignment_id attendance_data
                            \<and> att_patrol_point_id t = ac_patrol_point_id attendance_data)
                        (attendance db) of
                   Some existing \<Rightarrow>
                     (Inl (HTTPException 400 ''Attendance already marked for this point''), db)
                 | None \<Rightarrow>
                     (let att = \<lparr>att_id = new_id,
                                 att_officer_id = u_id current_user,
                                 att_route_assignment_id = ac_route_assignment_id attendance_data,
                                 att_patrol_point_id = ac_patrol_point_id attendance_data,
                                 att_check_in_time = now,
                                 att_notes = ac_notes attendance_data\<rparr>;
                          db1 = db\<lparr>attendance := insert_one att (attendance db)\<rparr>
                      in (case find_one (\<lambda>r. rt_id r = ra_route_id assignment) (routes db1) of
                            None \<Rightarrow> (Inr att, db1)
                          | Some route \<Rightarrow>
                              (let attendance_count =
                                     count_documents
                                       (\<lambda>t. att_route_assignment_id t
                                              = ac_route_assignment_id attendance_data)
                                       (attendance db1)
                               in if attendance_count \<ge> length (rt_patrol_point_ids route)
                                  then (Inr att,
                                        db1\<lparr>route_assignments :=
                                          update_one
                                            (\<lambda>a. ra_id a = ac_route_assignment_id attendance_data)
                                            (\<lambda>a. a\<lparr>ra_status := ''completed''\<rparr>)
                                            (route_assignments db1)\<rparr>)
                                  else if attendance_count > 0
                                  then (Inr att,
                                        db1\<lparr>route_assignments :=
                                          update_one
                                            (\<lambda>a. ra_id a = ac_route_assignment_id attendance_data)
                                            (\<lambda>a. a\<lparr>ra_status := ''in_progress''\<rparr>)
                                            (route_assignments db1)\<rparr>)
                                  else (Inr att, db1)))))))"


text \<open>The object built by \<^verbatim>\<open>Attendance(officer_id=current_user["id"], ...)\<close> in
  \<^verbatim>\<open>mark_attendance\<close>, named for the statements below.\<close>

definition new_attendance :: "string \<Rightarrow> string \<Rightarrow> AttendanceCreate \<Rightarrow> User \<Rightarrow> Attendance" where
  "new_attendance i n d c =
     \<lparr>att_id = i, att_officer_id = u_id c,
      att_route_assignment_id = ac_route_assignment_id d,
      att_patrol_point_id = ac_patrol_point_id d,
      att_check_in_time = n, att_notes = ac_notes d\<rparr>"

section \<open>Example stores\<close>

text \<open>
  Stand-ins for the password hash, its check and the token signer, and a small store:
  an admin and two officers; three patrol points stored in another order than route
  \<open>R1\<close> lists them; route \<open>R2\<close> lists an id \<open>P9\<close> that no stored point has; assignment
  \<open>A3\<close> refers to a route \<open>R0\<close> that is not stored.
\<close>

definition ex_hash :: "string \<Rightarrow> string" where
  "ex_hash password = ''hash:'' @ password"

definition ex_verify :: "string \<Rightarrow> string \<Rightarrow> bool" where
  "ex_verify password hashed \<longleftrightarrow> hashed = ex_hash password"

definition ex_token :: "string \<Rightarrow> string" where
  "ex_token sub = ''jwt:'' @ sub"

definition ex_alice :: User where
  "ex_alice = \<lparr>u_id = ''u-alice'', u_username = ''alice'', u_password_hash = ex_hash ''pw-a'',
     u_full_name = ''Alice Admin'', u_role = ''admin'', u_badge_number = None,
     u_created_at = ''2024-04-01T08:00:00+00:00''\<rparr>"

definition ex_bob :: User where
  "ex_bob = \<lparr>u_id = ''u-bob'', u_username = ''bob'', u_password_hash = ex_hash ''pw-b'',
     u_full_name = ''Bob Officer'', u_role = ''officer'', u_badge_number = Some ''B-17'',
     u_created_at = ''2024-04-01T08:05:00+00:00''\<rparr>"

definition ex_carol :: User where
  "ex_carol = \<lparr>u_id = ''u-carol'', u_username = ''carol'', u_password_hash = ex_hash ''pw-c'',
     u_full_name = ''Carol Officer'', u_role = ''officer'', u_badge_number = Some ''B-23'',
     u_created_at = ''2024-04-01T08:10:00+00:00''\<rparr>"

definition ex_point :: "string \<Rightarrow> string \<Rightarrow> PatrolPoint" where
  "ex_point i name = \<lparr>pp_id = i, pp_name = name, pp_description = ''checkpoint'',
     pp_address = ''1 Main St'', pp_latitude = None, pp_longitude = None,
     pp_created_at = ''2024-04-02T09:00:00+00:00''\<rparr>"

definition ex_route :: Route where
  "ex_route = \<lparr>rt_id = ''R1'', rt_name = ''Harbour'', rt_description = ''night round'',
     rt_patrol_point_ids = [''P1'', ''P2'', ''P3''],
     rt_created_at = ''2024-04-03T09:00:00+00:00''\<rparr>"

definition ex_route2 :: Route where
  "ex_route2 = \<lparr>rt_id = ''R2'', rt_name = ''Station'', rt_description = ''day round'',
     rt_patrol_point_ids = [''P3'', ''P9'', ''P1''],
     rt_created_at = ''2024-04-03T09:30:00+00:00''\<rparr>"

definition ex_assignment :: "string \<Rightarrow> string \<Rightarrow> string \<Rightarrow> string \<Rightarrow> RouteAssignment" where
  "ex_assignment i officer route date = \<lparr>ra_id = i, ra_officer_id = officer,
     ra_route_id = route, ra_date = date, ra_status = ''assigned'',
     ra_created_at = ''2024-04-30T18:00:00+00:00''\<rparr>"

definition ex_a1 :: RouteAssignment where
  "ex_a1 = ex_assignment ''A1'' ''u-bob'' ''R1'' ''2024-05-01''"

definition ex_a2 :: RouteAssignment where
  "ex_a2 = (ex_assignment ''A2'' ''u-carol'' ''R2'' ''2024-05-01'')\<lparr>ra_status := ''in_progress''\<rparr>"

definition ex_a3 :: RouteAssignment where
  "ex_a3 = ex_assignment ''A3'' ''u-bob'' ''R0'' ''2024-05-02''"

definition ex_att0 :: Attendance where
  "ex_att0 = \<lparr>att_id = ''t-0'', att_officer_id = ''u-carol'', att_route_assignment_id = ''A2'',
     att_patrol_point_id = ''P3'', att_check_in_time = ''2024-05-01T07:00:00+00:00'',
     att_notes = None\<rparr>"

definition ex_db :: Db where
  "ex_db = \<lparr>users = [ex_alice, ex_bob, ex_carol],
     patrol_points = [ex_point ''P2'' ''Pier'', ex_point ''P3'' ''Gate'', ex_point ''P1'' ''Depot''],
     routes = [ex_route, ex_route2],
     route_assignments = [ex_a1, ex_a2, ex_a3],
     attendance = [ex_att0]\<rparr>"

definition ex_mark :: "string \<Rightarrow> string \<Rightarrow> AttendanceCreate" where
  "ex_mark assignment_id point_id =
     \<lparr>ac_route_assignment_id = assignment_id, ac_patrol_point_id = point_id, ac_notes = None\<rparr>"

definition ex_now :: string where
  "ex_now = ''2024-05-01T10:00:00+00:00''"

text \<open>
  A store with a route of 1001 checkpoints, all stored, whose officer has checked in at
  every one of them, at the first checkpoint last.
\<close>

definition cx_point_id :: "nat \<Rightarrow> string" where
  "cx_point_id i = CHR ''P'' # replicate i CHR ''i''"

definition cx_point :: "nat \<Rightarrow> PatrolPoint" where
  "cx_point i = \<lparr>pp_id = cx_point_id i, pp_name = ''post'', pp_description = ''checkpoint'',
     pp_address = ''1 Main St'', pp_latitude = None, pp_longitude = None,
     pp_created_at = ''2024-04-02T09:00:00+00:00''\<rparr>"

definition cx_att :: "nat \<Rightarrow> Attendance" where
  "cx_att i = \<lparr>att_id = CHR ''t'' # cx_point_id i, att_officer_id = ''u-bob'',
     att_route_assignment_id = ''A1'', att_patrol_point_id = cx_point_id i,
     att_check_in_time = ''2024-05-01T10:00:00+00:00'', att_notes = None\<rparr>"

definition cx_route :: Route where
  "cx_route = \<lparr>rt_id = ''R1'', rt_name = ''Long'', rt_description = ''1001 checkpoints'',
     rt_patrol_point_ids = map cx_point_id [0..<1001],
     rt_created_at = ''2024-04-03T09:00:00+00:00''\<rparr>"

definition cx_assignment :: RouteAssignment where
  "cx_assignment = \<lparr>ra_id = ''A1'', ra_officer_id = ''u-bob'', ra_route_id = ''R1'',
     ra_date = ''2024-05-01'', ra_status = ''completed'',
     ra_created_at = ''2024-04-30T18:00:00+00:00''\<rparr>"

definition cx_db :: Db where
  "cx_db = \<lparr>users = [ex_alice, ex_bob],
     patrol_points = map cx_point [0..<1001],
     routes = [cx_route],
     route_assignments = [cx_assignment],
     attendance = map cx_att [1..<1001] @ [cx_att 0]\<rparr>"

definition cx_out :: "(PatrolPoint \<times> bool) list" where
  "cx_out = map (\<lambda>i. (cx_point i, i \<noteq> 0)) [0..<1000]"

section \<open>Facts about the store operations\<close>

lemma find_one_None_iff: "find_one q ds = None \<longleftrightarrow> (\<forall>d\<in>set ds. \<not> q d)"
  by (induction ds) auto

lemma find_one_SomeD: "find_one q ds = Some d \<Longrightarrow> q d \<and> d \<in> set ds"
  by (induction ds) (auto split: if_splits)

lemma find_one_insert_one:
  "find_one q (insert_one d ds) = (case find_one q ds of Some e \<Rightarrow> Some e
                                     | None \<Rightarrow> if q d then Some d else None)"
  by (induction ds) (auto simp: insert_one_def)

lemma find_one_append:
  "find_one q (xs @ ys) = (case find_one q xs of Some x \<Rightarrow> Some x | None \<Rightarrow> find_one q ys)"
  by (induction xs) auto

lemma find_one_update_one_Some:
  "find_one q ds = Some d \<Longrightarrow> q (upd d) \<Longrightarrow> find_one q (update_one q upd ds) = Some (upd d)"
  by (induction ds) (auto split: if_splits)

lemma find_one_update_one_None:
  "find_one q ds \<noteq> None \<Longrightarrow> (\<And>d. q d \<Longrightarrow> q (upd d)) \<Longrightarrow> find_one q (update_one q upd ds) \<noteq> None"
  by (induction ds) (auto split: if_splits)

lemma find_to_list_all:
  "count_documents q ds \<le> n \<Longrightarrow> find_to_list q n ds = filter q ds"
  by (simp add: find_to_list_def count_documents_def)

lemma delete_one_none: "fst (delete_one q ds) = 0 \<Longrightarrow> snd (delete_one q ds) = ds"
  by (induction ds) (auto split: prod.splits if_splits)

lemma delete_one_first:
  "fst (delete_one q ds) \<noteq> 0 \<Longrightarrow>
   \<exists>before d after. ds = before @ d # after \<and> q d \<and> (\<forall>b\<in>set before. \<not> q b)
      \<and> snd (delete_one q ds) = before @ after"
proof (induction ds)
  case Nil
  then show ?case by simp
next
  case (Cons x xs)
  show ?case
  proof (cases "q x")
    case True
    then have "x # xs = [] @ x # xs \<and> q x \<and> (\<forall>b\<in>set []. \<not> q b)
        \<and> snd (delete_one q (x # xs)) = [] @ xs"
      by simp
    then show ?thesis by blast
  next
    case False
    with Cons.prems have "fst (delete_one q xs) \<noteq> 0"
      by (simp split: prod.splits)
    from Cons.IH[OF this] obtain before d after where
      h: "xs = before @ d # after" "q d" "\<forall>b\<in>set before. \<not> q b"
         "snd (delete_one q xs) = before @ after"
      by blast
    with False have "x # xs = (x # before) @ d # after \<and> q d \<and> (\<forall>b\<in>set (x # before). \<not> q b)
        \<and> snd (delete_one q (x # xs)) = (x # before) @ after"
      by (auto split: prod.splits)
    then show ?thesis by blast
  qed
qed

section \<open>Facts about the handlers\<close>

lemmas ex_defs = ex_hash_def ex_verify_def ex_token_def ex_alice_def ex_bob_def ex_carol_def
  ex_point_def ex_route_def ex_route2_def ex_assignment_def ex_a1_def ex_a2_def ex_a3_def
  ex_att0_def ex_db_def ex_mark_def ex_now_def

lemma register_leaves_username:
  "find_one (\<lambda>u. u_username u = uc_username d) (users (snd (register h i n db d))) \<noteq> None"
  by (auto simp: register_def Let_def find_one_insert_one split: option.splits)

lemma mark_attendance_403:
  "u_role c \<noteq> ''officer'' \<Longrightarrow>
   mark_attendance i n db d c = (Inl (HTTPException 403 ''Only officers can mark attendance''), db)"
  by (simp add: mark_attendance_def)

lemma mark_attendance_404:
  "u_role c = ''officer'' \<Longrightarrow>
   find_one (\<lambda>a. ra_id a = ac_route_assignment_id d) (route_assignments db) = None \<Longrightarrow>
   mark_attendance i n db d c = (Inl (HTTPException 404 ''Route assignment not found''), db)"
  by (simp add: mark_attendance_def)

lemma mark_attendance_400:
  "u_role c = ''officer'' \<Longrightarrow>
   find_one (\<lambda>a. ra_id a = ac_route_assignment_id d) (route_assignments db) = Some a \<Longrightarrow>
   find_one (\<lambda>t. att_route_assignment_id t = ac_route_assignment_id d
                \<and> att_patrol_point_id t = ac_patrol_point_id d) (attendance db) = Some e \<Longrightarrow>
   mark_attendance i n db d c
     = (Inl (HTTPException 400 ''Attendance already marked for this point''), db)"
  by (simp add: mark_attendance_def)

lemma mark_attendance_ok_dangling:
  "u_role c = ''officer'' \<Longrightarrow>
   find_one (\<lambda>a. ra_id a = ac_route_assignment_id d) (route_assignments db) = Some a \<Longrightarrow>
   find_one (\<lambda>t. att_route_assignment_id t = ac_route_assignment_id d
                \<and> att_patrol_point_id t = ac_patrol_point_id d) (attendance db) = None \<Longrightarrow>
   find_one (\<lambda>r. rt_id r = ra_route_id a) (routes db) = None \<Longrightarrow>
   mark_attendance i n db d c
     = (Inr (new_attendance i n d c),
        db\<lparr>attendance := attendance db @ [new_attendance i n d c]\<rparr>)"
  by (simp add: mark_attendance_def Let_def insert_one_def new_attendance_def)

lemma mark_attendance_ok_route:
  "u_role c = ''officer'' \<Longrightarrow>
   find_one (\<lambda>a. ra_id a = ac_route_assignment_id d) (route_assignments db) = Some a \<Longrightarrow>
   find_one (\<lambda>t. att_route_assignment_id t = ac_route_assignment_id d
                \<and> att_patrol_point_id t = ac_patrol_point_id d) (attendance db) = None \<Longrightarrow>
   find_one (\<lambda>r. rt_id r = ra_route_id a) (routes db) = Some r \<Longrightarrow>
   mark_attendance i n db d c
     = (Inr (new_attendance i n d c),
        db\<lparr>attendance := attendance db @ [new_attendance i n d c],
           route_assignments :=
             update_one (\<lambda>a. ra_id a = ac_route_assignment_id d)
               (\<lambda>a. a\<lparr>ra_status :=
                  if length (rt_patrol_point_ids r)
                     \<le> Suc (count_documents
                              (\<lambda>t. att_route_assignment_id t = ac_route_assignment_id d)
                              (attendance db))
                  then ''completed'' else ''in_progress''\<rparr>)
               (route_assignments db)\<rparr>)"
  by (simp add: mark_attendance_def Let_def insert_one_def new_attendance_def
      count_documents_def)

lemma mark_attendance_InrD:
  assumes "mark_attendance i n db d c = (Inr att, db')"
  shows "u_role c = ''officer''
     \<and> find_one (\<lambda>a. ra_id a = ac_route_assignment_id d) (route_assignments db) \<noteq> None
     \<and> find_one (\<lambda>t. att_route_assignment_id t = ac_route_assignment_id d
                \<and> att_patrol_point_id t = ac_patrol_point_id d) (attendance db) = None"
  using assms by (auto simp: mark_attendance_def split: if_splits option.splits)

lemma ordered_points_ids:
  "map (\<lambda>(p, c). pp_id p) (ordered_points pts done ids)
     = filter (\<lambda>point_id. \<exists>p\<in>set pts. pp_id p = point_id) ids"
proof (induction ids)
  case Nil
  show ?case by simp
next
  case (Cons point_id rest)
  show ?case
  proof (cases "find_one (\<lambda>p. pp_id p = point_id) pts")
    case None
    then have "\<not> (\<exists>p\<in>set pts. pp_id p = point_id)"
      by (simp add: find_one_None_iff)
    with None Cons show ?thesis by simp
  next
    case (Some point)
    from find_one_SomeD[OF Some] have "\<exists>p\<in>set pts. pp_id p = point_id" by auto
    with Some Cons find_one_SomeD[OF Some] show ?thesis by simp
  qed
qed

lemma ordered_points_members:
  "(p, c) \<in> set (ordered_points pts done ids) \<Longrightarrow>
     p \<in> set pts \<and> pp_id p \<in> set ids \<and> (c \<longleftrightarrow> pp_id p \<in> set done)"
proof (induction ids)
  case Nil
  then show ?case by simp
next
  case (Cons point_id rest)
  show ?case
  proof (cases "find_one (\<lambda>p. pp_id p = point_id) pts")
    case None
    with Cons show ?thesis by simp
  next
    case (Some point)
    with Cons find_one_SomeD[OF Some] show ?thesis by auto
  qed
qed

lemma get_today_assignment_found:
  "u_role c = ''officer'' \<Longrightarrow>
   find_one (\<lambda>a. ra_officer_id a = u_id c \<and> ra_date a = today) (route_assignments db)
     = Some a \<Longrightarrow>
   find_one (\<lambda>r. rt_id r = ra_route_id a) (routes db) = Some r \<Longrightarrow>
   get_today_assignment today db c
     = Inr (Today a r
         (ordered_points
            (find_to_list (\<lambda>p. pp_id p \<in> set (rt_patrol_point_ids r)) 1000 (patrol_points db))
            (map att_patrol_point_id
               (find_to_list (\<lambda>t. att_route_assignment_id t = ra_id a) 1000 (attendance db)))
            (rt_patrol_point_ids r)))"
  by (simp add: get_today_assignment_def Let_def)

section \<open>The store with 1001 checkpoints\<close>

lemma cx_point_id_inj: "cx_point_id i = cx_point_id j \<longleftrightarrow> i = j"
proof
  assume "cx_point_id i = cx_point_id j"
  then have "length (cx_point_id i) = length (cx_point_id j)" by simp
  then show "i = j" by (simp add: cx_point_id_def)
qed simp

lemma find_one_cx_point:
  "find_one (\<lambda>p. pp_id p = cx_point_id i) (map cx_point [0..<n])
     = (if i < n then Some (cx_point i) else None)"
proof (induction n)
  case 0
  show ?case by simp
next
  case (Suc n)
  have "pp_id (cx_point n) = cx_point_id n" by (simp add: cx_point_def)
  with Suc show ?case
    by (auto simp: find_one_append cx_point_id_inj less_Suc_eq)
qed

lemma ordered_points_cx:
  "ordered_points (map cx_point [0..<n]) done (map cx_point_id is)
     = map (\<lambda>i. (cx_point i, cx_point_id i \<in> set done)) (filter (\<lambda>i. i < n) is)"
  by (induction "is") (simp_all add: find_one_cx_point)

lemma cx_fetch_points:
  "find_to_list (\<lambda>p. pp_id p \<in> set (map cx_point_id [0..<1001])) 1000 (map cx_point [0..<1001])
     = map cx_point [0..<1000]"
proof -
  have "filter (\<lambda>p. pp_id p \<in> set (map cx_point_id [0..<1001])) (map cx_point [0..<1001])
      = map cx_point [0..<1001]"
    by (rule filter_True) (auto simp: cx_point_def)
  then show ?thesis
    by (simp add: find_to_list_def take_map)
qed

lemma cx_fetch_attendance:
  "find_to_list (\<lambda>t. att_route_assignment_id t = ''A1'') 1000 (map cx_att [1..<1001] @ [cx_att 0])
     = map cx_att [1..<1001]"
proof -
  have "filter (\<lambda>t. att_route_assignment_id t = ''A1'') (map cx_att [1..<1001] @ [cx_att 0])
      = map cx_att [1..<1001] @ [cx_att 0]"
    by (rule filter_True) (auto simp: cx_att_def)
  then show ?thesis
    by (simp add: find_to_list_def)
qed

lemma cx_run:
  "get_today_assignment ''2024-05-01'' cx_db ex_bob = Inr (Today cx_assignment cx_route cx_out)"
proof -
  have ids: "map att_patrol_point_id (map cx_att [1..<1001]) = map cx_point_id [1..<1001]"
    by (simp add: cx_att_def)
  have upto: "filter (\<lambda>i. i < 1000) [0..<1001] = [0..<1000]"
  proof -
    have "[0..<1001] = [0..<1000] @ [1000::nat]"
      using upt_Suc_append[of 0 1000] by simp
    then show ?thesis by simp
  qed
  have out: "ordered_points (map cx_point [0..<1000]) (map cx_point_id [1..<1001])
               (map cx_point_id [0..<1001]) = cx_out"
    unfolding ordered_points_cx upto cx_out_def
    by (rule map_cong) (auto simp: cx_point_id_inj)
  have off: "u_role ex_bob = ''officer''"
    by (simp add: ex_bob_def)
  have a: "find_one (\<lambda>a. ra_officer_id a = u_id ex_bob \<and> ra_date a = ''2024-05-01'')
             (route_assignments cx_db) = Some cx_assignment"
    by (simp add: cx_db_def cx_assignment_def ex_bob_def)
  have r: "find_one (\<lambda>r. rt_id r = ra_route_id cx_assignment) (routes cx_db) = Some cx_route"
    by (simp add: cx_db_def cx_assignment_def cx_route_def)
  have pp: "patrol_points cx_db = map cx_point [0..<1001]"
    by (simp add: cx_db_def)
  have aa: "attendance cx_db = map cx_att [1..<1001] @ [cx_att 0]"
    by (simp add: cx_db_def)
  have rid: "ra_id cx_assignment = ''A1''"
    by (simp add: cx_assignment_def)
  have ridx: "rt_patrol_point_ids cx_route = map cx_point_id [0..<1001]"
    by (simp add: cx_route_def)
  show ?thesis
    unfolding get_today_assignment_found[OF off a r]
    by (simp only: pp aa rid ridx cx_fetch_points cx_fetch_attendance ids out)
qed

section \<open>The claims\<close>

subsection \<open>C1\<close>

text \<open>
  C1: on a successful \<^verbatim>\<open>mark_attendance\<close> for an assignment whose route is stored, with
  \<open>n\<close> the number of attendance rows of the assignment after the call and \<open>k\<close> the length
  of the route's \<^verbatim>\<open>patrol_point_ids\<close>, the stored assignment has status
  \<^verbatim>\<open>completed\<close> when \<open>n \<ge> k\<close> and \<^verbatim>\<open>in_progress\<close> when \<open>0 < n < k\<close>. The checkpoint marked
  is arbitrary, so the order of the visits plays no part; \<open>n\<close> is never \<open>0\<close> there.
\<close>

theorem mark_attendance_status:
  assumes "mark_attendance new_id now db attendance_data caller = (Inr att, db')"
    and "find_one (\<lambda>a. ra_id a = ac_route_assignment_id attendance_data)
           (route_assignments db) = Some assignment"
    and "find_one (\<lambda>r. rt_id r = ra_route_id assignment) (routes db) = Some route"
  shows "let n = count_documents
                   (\<lambda>t. att_route_assignment_id t = ac_route_assignment_id attendance_data)
                   (attendance db');
             k = length (rt_patrol_point_ids route)
         in 0 < n
          \<and> (\<exists>a'. find_one (\<lambda>a. ra_id a = ac_route_assignment_id attendance_data)
                     (route_assignments db') = Some a'
                \<and> (n \<ge> k \<longrightarrow> ra_status a' = ''completed'')
                \<and> (0 < n \<and> n < k \<longrightarrow> ra_status a' = ''in_progress''))"
proof -
  from mark_attendance_InrD[OF assms(1)]
  have off: "u_role caller = ''officer''"
    and fresh: "find_one (\<lambda>t. att_route_assignment_id t = ac_route_assignment_id attendance_data
                \<and> att_patrol_point_id t = ac_patrol_point_id attendance_data) (attendance db) = None"
    by simp_all
  let ?q = "\<lambda>a. ra_id a = ac_route_assignment_id attendance_data"
  let ?c = "count_documents
              (\<lambda>t. att_route_assignment_id t = ac_route_assignment_id attendance_data)"
  let ?upd = "\<lambda>a. a\<lparr>ra_status :=
                  if length (rt_patrol_point_ids route) \<le> Suc (?c (attendance db))
                  then ''completed'' else ''in_progress''\<rparr>"
  from mark_attendance_ok_route[OF off assms(2) fresh assms(3), of new_id now] assms(1)
  have db': "db' = db\<lparr>attendance := attendance db @ [new_attendance new_id now attendance_data caller],
                      route_assignments := update_one ?q ?upd (route_assignments db)\<rparr>"
    by simp
  have n: "?c (attendance db') = Suc (?c (attendance db))"
    by (simp add: db' count_documents_def new_attendance_def)
  have "?q (?upd assignment)"
    using find_one_SomeD[OF assms(2)] by simp
  with assms(2) find_one_update_one_Some[where q="?q" and upd="?upd" and d=assignment
      and ds="route_assignments db"]
  have f: "find_one ?q (route_assignments db') = Some (?upd assignment)"
    by (simp add: db')
  show ?thesis
    unfolding Let_def n f by auto
qed

theorem mark_attendance_status_witness:
  "mark_attendance ''t-1'' ex_now ex_db (ex_mark ''A1'' ''P2'') ex_bob
     = (Inr (new_attendance ''t-1'' ex_now (ex_mark ''A1'' ''P2'') ex_bob),
        ex_db\<lparr>attendance := [ex_att0, new_attendance ''t-1'' ex_now (ex_mark ''A1'' ''P2'') ex_bob],
              route_assignments := [ex_a1\<lparr>ra_status := ''in_progress''\<rparr>, ex_a2, ex_a3]\<rparr>)
   \<and> find_one (\<lambda>a. ra_id a = ac_route_assignment_id (ex_mark ''A1'' ''P2''))
       (route_assignments ex_db) = Some ex_a1
   \<and> find_one (\<lambda>r. rt_id r = ra_route_id ex_a1) (routes ex_db) = Some ex_route
   \<and> count_documents (\<lambda>t. att_route_assignment_id t = ''A1'')
       [ex_att0, new_attendance ''t-1'' ex_now (ex_mark ''A1'' ''P2'') ex_bob] = 1
   \<and> length (rt_patrol_point_ids ex_route) = 3
   \<and> find_one (\<lambda>a. ra_id a = ''A1'') [ex_a1\<lparr>ra_status := ''in_progress''\<rparr>, ex_a2, ex_a3]
       = Some (ex_a1\<lparr>ra_status := ''in_progress''\<rparr>)"
proof -
  have run: "mark_attendance ''t-1'' ex_now ex_db (ex_mark ''A1'' ''P2'') ex_bob
     = (Inr (new_attendance ''t-1'' ex_now (ex_mark ''A1'' ''P2'') ex_bob),
        ex_db\<lparr>attendance := [ex_att0, new_attendance ''t-1'' ex_now (ex_mark ''A1'' ''P2'') ex_bob],
              route_assignments := [ex_a1\<lparr>ra_status := ''in_progress''\<rparr>, ex_a2, ex_a3]\<rparr>)"
    by (simp add: mark_attendance_def ex_defs new_attendance_def insert_one_def
        count_documents_def Let_def)
  have a: "find_one (\<lambda>a. ra_id a = ac_route_assignment_id (ex_mark ''A1'' ''P2''))
       (route_assignments ex_db) = Some ex_a1"
    by (simp add: ex_defs)
  have r: "find_one (\<lambda>r. rt_id r = ra_route_id ex_a1) (routes ex_db) = Some ex_route"
    by (simp add: ex_defs)
  from mark_attendance_status[OF run a r] run a r show ?thesis
    by (simp add: ex_defs new_attendance_def count_documents_def Let_def)
qed

subsection \<open>C2\<close>

text \<open>
  C2: after a successful \<^verbatim>\<open>mark_attendance\<close> for a pair (assignment, checkpoint), a
  second call by any officer for the same pair returns the 400 error
  \<^verbatim>\<open>Attendance already marked for this point\<close> and leaves the store as it was; the pair
  has exactly one attendance row afterwards, the one the first call made.
\<close>

theorem mark_attendance_twice_conflict:
  assumes "mark_attendance id1 now1 db first_data caller1 = (Inr att, db1)"
    and "u_role caller2 = ''officer''"
    and "ac_route_assignment_id second_data = ac_route_assignment_id first_data"
    and "ac_patrol_point_id second_data = ac_patrol_point_id first_data"
  shows "mark_attendance id2 now2 db1 second_data caller2
           = (Inl (HTTPException 400 ''Attendance already marked for this point''), db1)
       \<and> filter (\<lambda>t. att_route_assignment_id t = ac_route_assignment_id first_data
                     \<and> att_patrol_point_id t = ac_patrol_point_id first_data)
           (attendance (snd (mark_attendance id2 now2 db1 second_data caller2)))
           = [att]"
proof -
  let ?qa = "\<lambda>a. ra_id a = ac_route_assignment_id first_data"
  let ?qt = "\<lambda>t. att_route_assignment_id t = ac_route_assignment_id first_data
                \<and> att_patrol_point_id t = ac_patrol_point_id first_data"
  let ?new = "new_attendance id1 now1 first_data caller1"
  from mark_attendance_InrD[OF assms(1)]
  have off: "u_role caller1 = ''officer''"
    and fresh: "find_one ?qt (attendance db) = None"
    and "find_one ?qa (route_assignments db) \<noteq> None"
    by simp_all
  then obtain a where a: "find_one ?qa (route_assignments db) = Some a" by auto
  have res: "att = ?new \<and> attendance db1 = attendance db @ [?new]
        \<and> find_one ?qa (route_assignments db1) \<noteq> None"
  proof (cases "find_one (\<lambda>r. rt_id r = ra_route_id a) (routes db)")
    case None
    from mark_attendance_ok_dangling[OF off a fresh None, of id1 now1] assms(1) a
    show ?thesis by auto
  next
    case (Some r)
    from mark_attendance_ok_route[OF off a fresh Some, of id1 now1] assms(1)
    have "att = ?new" and db1: "db1 = db\<lparr>attendance := attendance db @ [?new],
           route_assignments :=
             update_one ?qa
               (\<lambda>a. a\<lparr>ra_status :=
                  if length (rt_patrol_point_ids r)
                     \<le> Suc (count_documents
                              (\<lambda>t. att_route_assignment_id t = ac_route_assignment_id first_data)
                              (attendance db))
                  then ''completed'' else ''in_progress''\<rparr>)
               (route_assignments db)\<rparr>"
      by simp_all
    have "find_one ?qa (route_assignments db1) \<noteq> None"
      unfolding db1 using a by (simp add: find_one_update_one_None)
    with \<open>att = ?new\<close> db1 show ?thesis by simp
  qed
  then obtain a1 where a1: "find_one ?qa (route_assignments db1) = Some a1" by auto
  have "filter ?qt (attendance db) = []"
    using fresh by (simp add: find_one_None_iff filter_empty_conv)
  then have one: "filter ?qt (attendance db1) = [att]"
    using res by (simp add: new_attendance_def)
  then have "att \<in> set (filter ?qt (attendance db1))"
    by simp
  then have "find_one ?qt (attendance db1) \<noteq> None"
    unfolding find_one_None_iff by auto
  then obtain e where e: "find_one ?qt (attendance db1) = Some e" by auto
  have "mark_attendance id2 now2 db1 second_data caller2
           = (Inl (HTTPException 400 ''Attendance already marked for this point''), db1)"
    using mark_attendance_400[of caller2 second_data db1 a1 e id2 now2] assms(2-4) a1 e
    by simp
  with one show ?thesis by simp
qed

theorem mark_attendance_twice_conflict_witness:
  "mark_attendance ''t-1'' ex_now ex_db (ex_mark ''A1'' ''P2'') ex_bob
     = (Inr (new_attendance ''t-1'' ex_now (ex_mark ''A1'' ''P2'') ex_bob),
        ex_db\<lparr>attendance := [ex_att0, new_attendance ''t-1'' ex_now (ex_mark ''A1'' ''P2'') ex_bob],
              route_assignments := [ex_a1\<lparr>ra_status := ''in_progress''\<rparr>, ex_a2, ex_a3]\<rparr>)
   \<and> u_role ex_carol = ''officer''
   \<and> ac_route_assignment_id ((ex_mark ''A1'' ''P2'')\<lparr>ac_notes := Some ''again''\<rparr>)
       = ac_route_assignment_id (ex_mark ''A1'' ''P2'')
   \<and> ac_patrol_point_id ((ex_mark ''A1'' ''P2'')\<lparr>ac_notes := Some ''again''\<rparr>)
       = ac_patrol_point_id (ex_mark ''A1'' ''P2'')
   \<and> mark_attendance ''t-2'' ''2024-05-01T10:05:00+00:00''
        (ex_db\<lparr>attendance := [ex_att0, new_attendance ''t-1'' ex_now (ex_mark ''A1'' ''P2'') ex_bob],
              route_assignments := [ex_a1\<lparr>ra_status := ''in_progress''\<rparr>, ex_a2, ex_a3]\<rparr>)
        ((ex_mark ''A1'' ''P2'')\<lparr>ac_notes := Some ''again''\<rparr>) ex_carol
     = (Inl (HTTPException 400 ''Attendance already marked for this point''),
        ex_db\<lparr>attendance := [ex_att0, new_attendance ''t-1'' ex_now (ex_mark ''A1'' ''P2'') ex_bob],
              route_assignments := [ex_a1\<lparr>ra_status := ''in_progress''\<rparr>, ex_a2, ex_a3]\<rparr>)"
proof -
  have run: "mark_attendance ''t-1'' ex_now ex_db (ex_mark ''A1'' ''P2'') ex_bob
     = (Inr (new_attendance ''t-1'' ex_now (ex_mark ''A1'' ''P2'') ex_bob),
        ex_db\<lparr>attendance := [ex_att0, new_attendance ''t-1'' ex_now (ex_mark ''A1'' ''P2'') ex_bob],
              route_assignments := [ex_a1\<lparr>ra_status := ''in_progress''\<rparr>, ex_a2, ex_a3]\<rparr>)"
    by (simp add: mark_attendance_def ex_defs new_attendance_def insert_one_def
        count_documents_def Let_def)
  have off: "u_role ex_carol = ''officer''"
    by (simp add: ex_defs)
  have same: "ac_route_assignment_id ((ex_mark ''A1'' ''P2'')\<lparr>ac_notes := Some ''again''\<rparr>)
       = ac_route_assignment_id (ex_mark ''A1'' ''P2'')"
    "ac_patrol_point_id ((ex_mark ''A1'' ''P2'')\<lparr>ac_notes := Some ''again''\<rparr>)
       = ac_patrol_point_id (ex_mark ''A1'' ''P2'')"
    by simp_all
  from mark_attendance_twice_conflict[OF run off same,
      of "''t-2''" "''2024-05-01T10:05:00+00:00''"] run off same
  show ?thesis by simp
qed

subsection \<open>C3\<close>

text \<open>
  C3 (as stated): the claim puts no bound on the store. Both queries of
  \<^verbatim>\<open>get_today_assignment\<close> stop at 1000 documents. In the store with 1001 checkpoints the
  first checkpoint is returned with \<^verbatim>\<open>completed = False\<close> although its attendance row
  exists (it is the 1001st row of the assignment), and the last checkpoint is missing from
  the result although it is stored and listed by the route.
\<close>

theorem get_today_assignment_cap_counterexample:
  "get_today_assignment ''2024-05-01'' cx_db ex_bob = Inr (Today cx_assignment cx_route cx_out)
   \<and> (cx_point 0, False) \<in> set cx_out
   \<and> cx_att 0 \<in> set (attendance cx_db)
   \<and> att_route_assignment_id (cx_att 0) = ra_id cx_assignment
   \<and> att_patrol_point_id (cx_att 0) = pp_id (cx_point 0)
   \<and> cx_point 1000 \<in> set (patrol_points cx_db)
   \<and> pp_id (cx_point 1000) \<in> set (rt_patrol_point_ids cx_route)
   \<and> pp_id (cx_point 1000) \<notin> set (map pp_id (map fst cx_out))"
proof -
  have "(cx_point 0, False) \<in> set cx_out"
    unfolding cx_out_def by (simp add: image_iff)
  moreover have "cx_att 0 \<in> set (attendance cx_db)"
    by (simp add: cx_db_def)
  moreover have "att_route_assignment_id (cx_att 0) = ra_id cx_assignment"
    by (simp add: cx_att_def cx_assignment_def)
  moreover have "att_patrol_point_id (cx_att 0) = pp_id (cx_point 0)"
    by (simp add: cx_att_def cx_point_def)
  moreover have "cx_point 1000 \<in> set (patrol_points cx_db)"
    by (simp add: cx_db_def)
  moreover have "pp_id (cx_point 1000) \<in> set (rt_patrol_point_ids cx_route)"
    by (simp add: cx_route_def cx_point_def)
  moreover have "pp_id (cx_point 1000) \<notin> set (map pp_id (map fst cx_out))"
    by (auto simp: cx_out_def cx_point_def cx_point_id_inj)
  ultimately show ?thesis
    using cx_run by simp
qed

text \<open>
  C3 (amended): for an officer whose assignment of today exists and whose route is
  stored, provided at most 1000 stored patrol points have an id listed by the route and at
  most 1000 attendance rows belong to the assignment: the result lists the route's
  checkpoints in the order of \<^verbatim>\<open>patrol_point_ids\<close>, ids without a stored patrol point
  dropped, each a stored point, marked completed exactly when an attendance row for the
  assignment and that checkpoint exists.
\<close>

theorem get_today_assignment_ordered:
  assumes "u_role caller = ''officer''"
    and "find_one (\<lambda>a. ra_officer_id a = u_id caller \<and> ra_date a = today)
           (route_assignments db) = Some assignment"
    and "find_one (\<lambda>r. rt_id r = ra_route_id assignment) (routes db) = Some route"
    and "count_documents (\<lambda>p. pp_id p \<in> set (rt_patrol_point_ids route)) (patrol_points db)
           \<le> 1000"
    and "count_documents (\<lambda>t. att_route_assignment_id t = ra_id assignment) (attendance db)
           \<le> 1000"
  shows "\<exists>out. get_today_assignment today db caller = Inr (Today assignment route out)
          \<and> map (\<lambda>(p, completed). pp_id p) out
              = filter (\<lambda>point_id. \<exists>p\<in>set (patrol_points db). pp_id p = point_id)
                  (rt_patrol_point_ids route)
          \<and> (\<forall>(p, completed)\<in>set out.
                p \<in> set (patrol_points db)
              \<and> (completed \<longleftrightarrow>
                   (\<exists>t\<in>set (attendance db).
                      att_route_assignment_id t = ra_id assignment
                    \<and> att_patrol_point_id t = pp_id p)))"
proof -
  let ?pts = "filter (\<lambda>p. pp_id p \<in> set (rt_patrol_point_ids route)) (patrol_points db)"
  let ?done = "map att_patrol_point_id
                 (filter (\<lambda>t. att_route_assignment_id t = ra_id assignment) (attendance db))"
  let ?out = "ordered_points ?pts ?done (rt_patrol_point_ids route)"
  have res: "get_today_assignment today db caller = Inr (Today assignment route ?out)"
    using assms by (simp add: get_today_assignment_def Let_def find_to_list_all)
  have "filter (\<lambda>point_id. \<exists>p\<in>set ?pts. pp_id p = point_id) (rt_patrol_point_ids route)
      = filter (\<lambda>point_id. \<exists>p\<in>set (patrol_points db). pp_id p = point_id)
          (rt_patrol_point_ids route)"
    by (rule filter_cong) auto
  then have ids: "map (\<lambda>(p, completed). pp_id p) ?out
      = filter (\<lambda>point_id. \<exists>p\<in>set (patrol_points db). pp_id p = point_id)
          (rt_patrol_point_ids route)"
    by (simp add: ordered_points_ids)
  have marks: "p \<in> set (patrol_points db)
              \<and> (completed \<longleftrightarrow>
                   (\<exists>t\<in>set (attendance db).
                      att_route_assignment_id t = ra_id assignment
                    \<and> att_patrol_point_id t = pp_id p))"
    if "(p, completed) \<in> set ?out" for p completed
  proof -
    have "pp_id p \<in> set ?done \<longleftrightarrow>
            (\<exists>t\<in>set (attendance db).
                att_route_assignment_id t = ra_id assignment
              \<and> att_patrol_point_id t = pp_id p)"
      by force
    with ordered_points_members[OF that] show ?thesis by simp
  qed
  show ?thesis
    using res ids marks by blast
qed

theorem get_today_assignment_ordered_witness:
  "u_role ex_carol = ''officer''
   \<and> find_one (\<lambda>a. ra_officer_id a = u_id ex_carol \<and> ra_date a = ''2024-05-01'')
       (route_assignments ex_db) = Some ex_a2
   \<and> find_one (\<lambda>r. rt_id r = ra_route_id ex_a2) (routes ex_db) = Some ex_route2
   \<and> count_documents (\<lambda>p. pp_id p \<in> set (rt_patrol_point_ids ex_route2)) (patrol_points ex_db)
       \<le> 1000
   \<and> count_documents (\<lambda>t. att_route_assignment_id t = ra_id ex_a2) (attendance ex_db) \<le> 1000
   \<and> get_today_assignment ''2024-05-01'' ex_db ex_carol
       = Inr (Today ex_a2 ex_route2 [(ex_point ''P3'' ''Gate'', True), (ex_point ''P1'' ''Depot'', False)])"
proof -
  have off: "u_role ex_carol = ''officer''"
    by (simp add: ex_defs)
  have a: "find_one (\<lambda>a. ra_officer_id a = u_id ex_carol \<and> ra_date a = ''2024-05-01'')
       (route_assignments ex_db) = Some ex_a2"
    by (simp add: ex_defs)
  have r: "find_one (\<lambda>r. rt_id r = ra_route_id ex_a2) (routes ex_db) = Some ex_route2"
    by (simp add: ex_defs)
  have c1: "count_documents (\<lambda>p. pp_id p \<in> set (rt_patrol_point_ids ex_route2))
              (patrol_points ex_db) \<le> 1000"
    by (simp add: ex_defs count_documents_def)
  have c2: "count_documents (\<lambda>t. att_route_assignment_id t = ra_id ex_a2) (attendance ex_db)
              \<le> 1000"
    by (simp add: ex_defs count_documents_def)
  have run: "get_today_assignment ''2024-05-01'' ex_db ex_carol
       = Inr (Today ex_a2 ex_route2 [(ex_point ''P3'' ''Gate'', True), (ex_point ''P1'' ''Depot'', False)])"
    by (simp add: get_today_assignment_def ex_defs find_to_list_def Let_def)
  from get_today_assignment_ordered[OF off a r c1 c2] off a r c1 c2 run
  show ?thesis by simp
qed

subsection \<open>C4\<close>

text \<open>
  C4: \<^verbatim>\<open>get_route_assignments\<close> for a caller of role \<^verbatim>\<open>officer\<close> returns the first 1000
  stored assignments whose \<^verbatim>\<open>officer_id\<close> is the caller's id, so every one returned is
  stored and belongs to the caller; for a caller of role \<^verbatim>\<open>admin\<close> it returns the first
  1000 stored assignments, unfiltered.
\<close>

theorem get_route_assignments_role_filtered:
  "(u_role caller = ''officer'' \<longrightarrow>
      get_route_assignments db caller
        = take 1000 (filter (\<lambda>a. ra_officer_id a = u_id caller) (route_assignments db))
    \<and> (\<forall>a\<in>set (get_route_assignments db caller).
          ra_officer_id a = u_id caller \<and> a \<in> set (route_assignments db)))
 \<and> (u_role caller = ''admin'' \<longrightarrow>
      get_route_assignments db caller = take 1000 (route_assignments db))"
proof (intro conjI impI)
  assume "u_role caller = ''officer''"
  then show eq: "get_route_assignments db caller
        = take 1000 (filter (\<lambda>a. ra_officer_id a = u_id caller) (route_assignments db))"
    by (simp add: get_route_assignments_def find_to_list_def)
  show "\<forall>a\<in>set (get_route_assignments db caller).
          ra_officer_id a = u_id caller \<and> a \<in> set (route_assignments db)"
    unfolding eq by (auto dest: in_set_takeD)
next
  assume "u_role caller = ''admin''"
  then show "get_route_assignments db caller = take 1000 (route_assignments db)"
    by (simp add: get_route_assignments_def find_to_list_def)
qed

theorem get_route_assignments_role_filtered_witness:
  "u_role ex_bob = ''officer''
   \<and> get_route_assignments ex_db ex_bob = [ex_a1, ex_a3]
   \<and> ra_officer_id ex_a1 = u_id ex_bob \<and> ra_officer_id ex_a3 = u_id ex_bob
   \<and> u_role ex_alice = ''admin''
   \<and> get_route_assignments ex_db ex_alice = [ex_a1, ex_a2, ex_a3]"
  using get_route_assignments_role_filtered[of ex_bob ex_db]
    get_route_assignments_role_filtered[of ex_alice ex_db]
  by (simp add: ex_defs)

subsection \<open>C5\<close>

text \<open>
  C5: for a caller of role \<^verbatim>\<open>officer\<close>, \<^verbatim>\<open>mark_attendance\<close> never compares the
  assignment's \<^verbatim>\<open>officer_id\<close> with the caller: if the assignment id is not stored the call
  fails with 404; if it is stored and the pair has no attendance row the call succeeds,
  whoever owns the assignment, and the row created carries the caller's id as
  \<^verbatim>\<open>officer_id\<close>; and a 404 is returned only when the assignment id is not stored.
\<close>

theorem mark_attendance_no_ownership_check:
  assumes "u_role caller = ''officer''"
  shows "(find_one (\<lambda>a. ra_id a = ac_route_assignment_id attendance_data)
            (route_assignments db) = None
          \<longrightarrow> mark_attendance new_id now db attendance_data caller
                = (Inl (HTTPException 404 ''Route assignment not found''), db))
       \<and> (find_one (\<lambda>a. ra_id a = ac_route_assignment_id attendance_data)
            (route_assignments db) \<noteq> None
          \<and> find_one (\<lambda>t. att_route_assignment_id t = ac_route_assignment_id attendance_data
                         \<and> att_patrol_point_id t = ac_patrol_point_id attendance_data)
              (attendance db) = None
          \<longrightarrow> (\<exists>att db'. mark_attendance new_id now db attendance_data caller = (Inr att, db')
                  \<and> att = \<lparr>att_id = new_id, att_officer_id = u_id caller,
                       att_route_assignment_id = ac_route_assignment_id attendance_data,
                       att_patrol_point_id = ac_patrol_point_id attendance_data,
                       att_check_in_time = now, att_notes = ac_notes attendance_data\<rparr>
                  \<and> attendance db' = attendance db @ [att]))
       \<and> (\<forall>detail. fst (mark_attendance new_id now db attendance_data caller)
                     = Inl (HTTPException 404 detail)
          \<longrightarrow> find_one (\<lambda>a. ra_id a = ac_route_assignment_id attendance_data)
                (route_assignments db) = None)"
proof (intro conjI impI allI)
  assume "find_one (\<lambda>a. ra_id a = ac_route_assignment_id attendance_data)
            (route_assignments db) = None"
  then show "mark_attendance new_id now db attendance_data caller
                = (Inl (HTTPException 404 ''Route assignment not found''), db)"
    using assms by (simp add: mark_attendance_404)
next
  assume h: "find_one (\<lambda>a. ra_id a = ac_route_assignment_id attendance_data)
            (route_assignments db) \<noteq> None
          \<and> find_one (\<lambda>t. att_route_assignment_id t = ac_route_assignment_id attendance_data
                         \<and> att_patrol_point_id t = ac_patrol_point_id attendance_data)
              (attendance db) = None"
  then obtain a where a: "find_one (\<lambda>a. ra_id a = ac_route_assignment_id attendance_data)
            (route_assignments db) = Some a" by auto
  show "\<exists>att db'. mark_attendance new_id now db attendance_data caller = (Inr att, db')
                  \<and> att = \<lparr>att_id = new_id, att_officer_id = u_id caller,
                       att_route_assignment_id = ac_route_assignment_id attendance_data,
                       att_patrol_point_id = ac_patrol_point_id attendance_data,
                       att_check_in_time = now, att_notes = ac_notes attendance_data\<rparr>
                  \<and> attendance db' = attendance db @ [att]"
  proof (cases "find_one (\<lambda>r. rt_id r = ra_route_id a) (routes db)")
    case None
    from mark_attendance_ok_dangling[OF assms a conjunct2[OF h] None, of new_id now]
    show ?thesis by (simp add: new_attendance_def)
  next
    case (Some r)
    from mark_attendance_ok_route[OF assms a conjunct2[OF h] Some, of new_id now]
    show ?thesis by (simp add: new_attendance_def)
  qed
next
  fix detail
  assume "fst (mark_attendance new_id now db attendance_data caller)
                     = Inl (HTTPException 404 detail)"
  then show "find_one (\<lambda>a. ra_id a = ac_route_assignment_id attendance_data)
                (route_assignments db) = None"
    by (auto simp: mark_attendance_def Let_def split: if_splits option.splits)
qed

theorem mark_attendance_no_ownership_check_witness:
  "u_role ex_carol = ''officer''
   \<and> find_one (\<lambda>a. ra_id a = ac_route_assignment_id (ex_mark ''A1'' ''P1''))
       (route_assignments ex_db) = Some ex_a1
   \<and> ra_officer_id ex_a1 \<noteq> u_id ex_carol
   \<and> find_one (\<lambda>t. att_route_assignment_id t = ac_route_assignment_id (ex_mark ''A1'' ''P1'')
                  \<and> att_patrol_point_id t = ac_patrol_point_id (ex_mark ''A1'' ''P1''))
       (attendance ex_db) = None
   \<and> fst (mark_attendance ''t-1'' ex_now ex_db (ex_mark ''A1'' ''P1'') ex_carol)
       = Inr \<lparr>att_id = ''t-1'', att_officer_id = ''u-carol'', att_route_assignment_id = ''A1'',
              att_patrol_point_id = ''P1'', att_check_in_time = ex_now, att_notes = None\<rparr>
   \<and> find_one (\<lambda>a. ra_id a = ac_route_assignment_id (ex_mark ''A7'' ''P1''))
       (route_assignments ex_db) = None
   \<and> mark_attendance ''t-1'' ex_now ex_db (ex_mark ''A7'' ''P1'') ex_carol
       = (Inl (HTTPException 404 ''Route assignment not found''), ex_db)"
proof -
  have off: "u_role ex_carol = ''officer''"
    by (simp add: ex_defs)
  have rest: "find_one (\<lambda>a. ra_id a = ac_route_assignment_id (ex_mark ''A1'' ''P1''))
       (route_assignments ex_db) = Some ex_a1
   \<and> ra_officer_id ex_a1 \<noteq> u_id ex_carol
   \<and> find_one (\<lambda>t. att_route_assignment_id t = ac_route_assignment_id (ex_mark ''A1'' ''P1'')
                  \<and> att_patrol_point_id t = ac_patrol_point_id (ex_mark ''A1'' ''P1''))
       (attendance ex_db) = None
   \<and> find_one (\<lambda>a. ra_id a = ac_route_assignment_id (ex_mark ''A7'' ''P1''))
       (route_assignments ex_db) = None"
    by (simp add: ex_defs)
  from mark_attendance_no_ownership_check[OF off, of "ex_mark ''A1'' ''P1''" ex_db "''t-1''" ex_now]
    mark_attendance_no_ownership_check[OF off, of "ex_mark ''A7'' ''P1''" ex_db "''t-1''" ex_now]
    off rest
  show ?thesis
    by (auto simp: ex_mark_def ex_carol_def)
qed

subsection \<open>C6\<close>

text \<open>
  C6: \<^verbatim>\<open>register\<close> stores the role of the request without looking at it. The model
  \<^verbatim>\<open>User\<close> documents the field as \<^verbatim>\<open>role: str  # "admin" or "officer"\<close>; registering with
  the role \<^verbatim>\<open>superuser\<close> succeeds and stores a user whose role is neither.
\<close>

theorem register_stores_unchecked_role:
  "register ex_hash ''u-mallory'' ex_now ex_db
     \<lparr>uc_username = ''mallory'', uc_password = ''pw-m'', uc_full_name = ''Mallory'',
      uc_role = ''superuser'', uc_badge_number = None\<rparr>
   = (Inr \<lparr>ur_id = ''u-mallory'', ur_username = ''mallory'', ur_full_name = ''Mallory'',
           ur_role = ''superuser'', ur_badge_number = None\<rparr>,
      ex_db\<lparr>users := [ex_alice, ex_bob, ex_carol,
        \<lparr>u_id = ''u-mallory'', u_username = ''mallory'', u_password_hash = ex_hash ''pw-m'',
         u_full_name = ''Mallory'', u_role = ''superuser'', u_badge_number = None,
         u_created_at = ex_now\<rparr>]\<rparr>)
   \<and> ''superuser'' \<noteq> ''admin'' \<and> ''superuser'' \<noteq> ''officer''"
  by (simp add: register_def Let_def insert_one_def ex_db_def ex_alice_def ex_bob_def
      ex_carol_def)

subsection \<open>C7\<close>

text \<open>
  C7: of two registrations with the same username, run one after the other,
  the second returns the 400 error \<^verbatim>\<open>Username already exists\<close> and leaves the store as the
  first left it; when the first succeeded, the only stored user with that username is the
  document the first one inserted.
\<close>

theorem register_duplicate_username_conflict:
  assumes "uc_username d2 = uc_username d1"
  shows "register h2 id2 now2 (snd (register h1 id1 now1 db d1)) d2
           = (Inl (HTTPException 400 ''Username already exists''),
              snd (register h1 id1 now1 db d1))
         \<and> (\<forall>resp. fst (register h1 id1 now1 db d1) = Inr resp \<longrightarrow>
              filter (\<lambda>u. u_username u = uc_username d1)
                (users (snd (register h2 id2 now2 (snd (register h1 id1 now1 db d1)) d2)))
              = [\<lparr>u_id = id1, u_username = uc_username d1,
                   u_password_hash = h1 (uc_password d1), u_full_name = uc_full_name d1,
                   u_role = uc_role d1, u_badge_number = uc_badge_number d1,
                   u_created_at = now1\<rparr>])"
proof -
  let ?db1 = "snd (register h1 id1 now1 db d1)"
  have "find_one (\<lambda>u. u_username u = uc_username d2) (users ?db1) \<noteq> None"
    using register_leaves_username[of d1 h1 id1 now1 db] assms by simp
  then obtain e where e: "find_one (\<lambda>u. u_username u = uc_username d2) (users ?db1) = Some e"
    by auto
  have second: "register h2 id2 now2 ?db1 d2
           = (Inl (HTTPException 400 ''Username already exists''), ?db1)"
    using e by (simp add: register_def)
  have first: "filter (\<lambda>u. u_username u = uc_username d1) (users ?db1)
              = [\<lparr>u_id = id1, u_username = uc_username d1,
                   u_password_hash = h1 (uc_password d1), u_full_name = uc_full_name d1,
                   u_role = uc_role d1, u_badge_number = uc_badge_number d1,
                   u_created_at = now1\<rparr>]"
    if "fst (register h1 id1 now1 db d1) = Inr resp" for resp
  proof -
    from that have none: "find_one (\<lambda>u. u_username u = uc_username d1) (users db) = None"
      by (auto simp: register_def split: option.splits)
    then have "filter (\<lambda>u. u_username u = uc_username d1) (users db) = []"
      by (simp add: find_one_None_iff filter_empty_conv)
    then show ?thesis using none
      by (simp add: register_def Let_def insert_one_def)
  qed
  show ?thesis using second first by simp
qed

theorem register_duplicate_username_conflict_witness:
  "uc_username \<lparr>uc_username = ''dave'', uc_password = ''other'', uc_full_name = ''Dave Two'',
                 uc_role = ''admin'', uc_badge_number = None\<rparr>
     = uc_username \<lparr>uc_username = ''dave'', uc_password = ''pw-d'', uc_full_name = ''Dave One'',
                   uc_role = ''officer'', uc_badge_number = Some ''B-31''\<rparr>
   \<and> fst (register ex_hash ''u-dave'' ex_now ex_db
        \<lparr>uc_username = ''dave'', uc_password = ''pw-d'', uc_full_name = ''Dave One'',
         uc_role = ''officer'', uc_badge_number = Some ''B-31''\<rparr>)
       = Inr \<lparr>ur_id = ''u-dave'', ur_username = ''dave'', ur_full_name = ''Dave One'',
              ur_role = ''officer'', ur_badge_number = Some ''B-31''\<rparr>
   \<and> fst (register ex_hash ''u-dave2'' ex_now
        (snd (register ex_hash ''u-dave'' ex_now ex_db
           \<lparr>uc_username = ''dave'', uc_password = ''pw-d'', uc_full_name = ''Dave One'',
            uc_role = ''officer'', uc_badge_number = Some ''B-31''\<rparr>))
        \<lparr>uc_username = ''dave'', uc_password = ''other'', uc_full_name = ''Dave Two'',
         uc_role = ''admin'', uc_badge_number = None\<rparr>)
       = Inl (HTTPException 400 ''Username already exists'')
   \<and> users (snd (register ex_hash ''u-dave2'' ex_now
        (snd (register ex_hash ''u-dave'' ex_now ex_db
           \<lparr>uc_username = ''dave'', uc_password = ''pw-d'', uc_full_name = ''Dave One'',
            uc_role = ''officer'', uc_badge_number = Some ''B-31''\<rparr>))
        \<lparr>uc_username = ''dave'', uc_password = ''other'', uc_full_name = ''Dave Two'',
         uc_role = ''admin'', uc_badge_number = None\<rparr>))
       = [ex_alice, ex_bob, ex_carol,
          \<lparr>u_id = ''u-dave'', u_username = ''dave'', u_password_hash = ex_hash ''pw-d'',
           u_full_name = ''Dave One'', u_role = ''officer'', u_badge_number = Some ''B-31'',
           u_created_at = ex_now\<rparr>]"
proof -
  have same: "uc_username \<lparr>uc_username = ''dave'', uc_password = ''other'', uc_full_name = ''Dave Two'',
                 uc_role = ''admin'', uc_badge_number = None\<rparr>
     = uc_username \<lparr>uc_username = ''dave'', uc_password = ''pw-d'', uc_full_name = ''Dave One'',
                   uc_role = ''officer'', uc_badge_number = Some ''B-31''\<rparr>"
    by simp
  have first: "register ex_hash ''u-dave'' ex_now ex_db
        \<lparr>uc_username = ''dave'', uc_password = ''pw-d'', uc_full_name = ''Dave One'',
         uc_role = ''officer'', uc_badge_number = Some ''B-31''\<rparr>
       = (Inr \<lparr>ur_id = ''u-dave'', ur_username = ''dave'', ur_full_name = ''Dave One'',
              ur_role = ''officer'', ur_badge_number = Some ''B-31''\<rparr>,
          ex_db\<lparr>users := [ex_alice, ex_bob, ex_carol,
          \<lparr>u_id = ''u-dave'', u_username = ''dave'', u_password_hash = ex_hash ''pw-d'',
           u_full_name = ''Dave One'', u_role = ''officer'', u_badge_number = Some ''B-31'',
           u_created_at = ex_now\<rparr>]\<rparr>)"
    by (simp add: register_def Let_def insert_one_def ex_db_def ex_alice_def ex_bob_def
        ex_carol_def)
  from register_duplicate_username_conflict[OF same, of ex_hash "''u-dave2''" ex_now ex_hash
      "''u-dave''" ex_now ex_db] same
  show ?thesis
    unfolding first by simp
qed

subsection \<open>C8\<close>

text \<open>
  C8: a \<^verbatim>\<open>login\<close> with a username that is not stored and a \<^verbatim>\<open>login\<close> with a
  stored username and a password that does not verify return the same value, the 401 error
  \<^verbatim>\<open>Invalid username or password\<close>.
\<close>

theorem login_failures_identical:
  assumes "find_one (\<lambda>u. u_username u = ul_username unknown) (users db) = None"
    and "find_one (\<lambda>u. u_username u = ul_username wrong) (users db') = Some usr"
    and "\<not> verify_password (ul_password wrong) (u_password_hash usr)"
  shows "login verify_password create_access_token db unknown
           = login verify_password create_access_token db' wrong
         \<and> login verify_password create_access_token db' wrong
           = Inl (HTTPException 401 ''Invalid username or password'')"
  using assms by (simp add: login_def)

theorem login_failures_identical_witness:
  "find_one (\<lambda>u. u_username u = ul_username \<lparr>ul_username = ''zed'', ul_password = ''pw-b''\<rparr>)
     (users ex_db) = None
   \<and> find_one (\<lambda>u. u_username u = ul_username \<lparr>ul_username = ''bob'', ul_password = ''guess''\<rparr>)
       (users ex_db) = Some ex_bob
   \<and> \<not> ex_verify (ul_password \<lparr>ul_username = ''bob'', ul_password = ''guess''\<rparr>)
         (u_password_hash ex_bob)
   \<and> login ex_verify ex_token ex_db \<lparr>ul_username = ''zed'', ul_password = ''pw-b''\<rparr>
       = login ex_verify ex_token ex_db \<lparr>ul_username = ''bob'', ul_password = ''guess''\<rparr>
   \<and> login ex_verify ex_token ex_db \<lparr>ul_username = ''bob'', ul_password = ''guess''\<rparr>
       = Inl (HTTPException 401 ''Invalid username or password'')"
proof -
  have h1: "find_one (\<lambda>u. u_username u = ul_username \<lparr>ul_username = ''zed'', ul_password = ''pw-b''\<rparr>)
     (users ex_db) = None"
    by (simp add: ex_defs)
  have h2: "find_one (\<lambda>u. u_username u = ul_username \<lparr>ul_username = ''bob'', ul_password = ''guess''\<rparr>)
       (users ex_db) = Some ex_bob"
    by (simp add: ex_defs)
  have h3: "\<not> ex_verify (ul_password \<lparr>ul_username = ''bob'', ul_password = ''guess''\<rparr>)
         (u_password_hash ex_bob)"
    by (simp add: ex_defs)
  from login_failures_identical[where db = ex_db and db' = ex_db and usr = ex_bob
      and verify_password = ex_verify and create_access_token = ex_token
      and unknown = "\<lparr>ul_username = ''zed'', ul_password = ''pw-b''\<rparr>"
      and wrong = "\<lparr>ul_username = ''bob'', ul_password = ''guess''\<rparr>"] h1 h2 h3
  show ?thesis by simp
qed

subsection \<open>C9\<close>

text \<open>
  C9: for a stored route that lists a patrol point id, \<^verbatim>\<open>delete_patrol_point\<close> of
  that id, by any caller, changes nothing but the collection of patrol points: the routes
  are the same documents, the route is still stored and still read back by
  \<^verbatim>\<open>get_routes\<close> and by id, with the id in its sequence; on success exactly the first
  stored point with that id is gone.
\<close>

theorem delete_patrol_point_not_cascaded:
  assumes "r \<in> set (routes db)" and "point_id \<in> set (rt_patrol_point_ids r)"
  shows "routes (snd (delete_patrol_point db point_id caller)) = routes db
       \<and> r \<in> set (routes (snd (delete_patrol_point db point_id caller)))
       \<and> get_routes (snd (delete_patrol_point db point_id caller)) reader = get_routes db reader
       \<and> find_one (\<lambda>x. rt_id x = rt_id r) (routes (snd (delete_patrol_point db point_id caller)))
           = find_one (\<lambda>x. rt_id x = rt_id r) (routes db)
       \<and> (\<exists>ps. snd (delete_patrol_point db point_id caller) = db\<lparr>patrol_points := ps\<rparr>)
       \<and> (\<forall>msg. fst (delete_patrol_point db point_id caller) = Inr msg \<longrightarrow>
            (\<exists>before p after.
                patrol_points db = before @ p # after \<and> pp_id p = point_id
              \<and> (\<forall>b\<in>set before. pp_id b \<noteq> point_id)
              \<and> patrol_points (snd (delete_patrol_point db point_id caller)) = before @ after))"
proof -
  let ?db' = "snd (delete_patrol_point db point_id caller)"
  let ?del = "delete_one (\<lambda>p. pp_id p = point_id) (patrol_points db)"
  have shape: "?db' = db \<or> ?db' = db\<lparr>patrol_points := snd ?del\<rparr>"
    by (simp add: delete_patrol_point_def split: prod.splits)
  then have frame: "\<exists>ps. ?db' = db\<lparr>patrol_points := ps\<rparr>"
  proof
    assume "?db' = db"
    then have "?db' = db\<lparr>patrol_points := patrol_points db\<rparr>" by simp
    then show ?thesis by blast
  next
    assume "?db' = db\<lparr>patrol_points := snd ?del\<rparr>"
    then show ?thesis by blast
  qed
  then obtain ps where ps: "?db' = db\<lparr>patrol_points := ps\<rparr>" by blast
  have rts: "routes ?db' = routes db"
    unfolding ps by simp
  have succ: "\<exists>before p after.
                patrol_points db = before @ p # after \<and> pp_id p = point_id
              \<and> (\<forall>b\<in>set before. pp_id b \<noteq> point_id)
              \<and> patrol_points ?db' = before @ after"
    if "fst (delete_patrol_point db point_id caller) = Inr msg" for msg
  proof -
    from that have ne: "fst ?del \<noteq> 0" and db': "?db' = db\<lparr>patrol_points := snd ?del\<rparr>"
      by (auto simp: delete_patrol_point_def split: prod.splits if_splits)
    from delete_one_first[OF ne] db' show ?thesis by simp
  qed
  show ?thesis
    using assms(1) rts frame succ by (simp add: get_routes_def)
qed

theorem delete_patrol_point_not_cascaded_witness:
  "ex_route \<in> set (routes ex_db) \<and> ''P1'' \<in> set (rt_patrol_point_ids ex_route)
   \<and> delete_patrol_point ex_db ''P1'' ex_alice
       = (Inr ''Patrol point deleted successfully'',
          ex_db\<lparr>patrol_points := [ex_point ''P2'' ''Pier'', ex_point ''P3'' ''Gate'']\<rparr>)
   \<and> routes (snd (delete_patrol_point ex_db ''P1'' ex_alice)) = [ex_route, ex_route2]
   \<and> get_routes (snd (delete_patrol_point ex_db ''P1'' ex_alice)) ex_bob = [ex_route, ex_route2]
   \<and> rt_patrol_point_ids ex_route = [''P1'', ''P2'', ''P3'']"
proof -
  have h1: "ex_route \<in> set (routes ex_db)"
    by (simp add: ex_db_def)
  have h2: "''P1'' \<in> set (rt_patrol_point_ids ex_route)"
    by (simp add: ex_route_def)
  have run: "delete_patrol_point ex_db ''P1'' ex_alice
       = (Inr ''Patrol point deleted successfully'',
          ex_db\<lparr>patrol_points := [ex_point ''P2'' ''Pier'', ex_point ''P3'' ''Gate'']\<rparr>)"
    by (simp add: delete_patrol_point_def ex_db_def ex_alice_def ex_point_def)
  have rts: "routes ex_db = [ex_route, ex_route2]"
    by (simp add: ex_db_def)
  from delete_patrol_point_not_cascaded[OF h1 h2, of ex_alice ex_bob] h1 h2 run
  show ?thesis
    by (simp add: rts get_routes_def find_to_list_def ex_route_def)
qed

subsection \<open>C10\<close>

text \<open>
  C10: for an officer marking a pair without attendance row on a stored
  assignment whose \<^verbatim>\<open>route_id\<close> has no stored route, \<^verbatim>\<open>mark_attendance\<close> succeeds: it
  returns the new row, the store afterwards is the store before with the row appended to
  the attendance collection, and the assignment is read back unchanged.
\<close>

theorem mark_attendance_dangling_route:
  assumes "u_role caller = ''officer''"
    and "find_one (\<lambda>a. ra_id a = ac_route_assignment_id attendance_data)
           (route_assignments db) = Some assignment"
    and "find_one (\<lambda>r. rt_id r = ra_route_id assignment) (routes db) = None"
    and "find_one (\<lambda>t. att_route_assignment_id t = ac_route_assignment_id attendance_data
                      \<and> att_patrol_point_id t = ac_patrol_point_id attendance_data)
           (attendance db) = None"
  shows "\<exists>att. mark_attendance new_id now db attendance_data caller
                 = (Inr att, db\<lparr>attendance := attendance db @ [att]\<rparr>)
             \<and> att = \<lparr>att_id = new_id, att_officer_id = u_id caller,
                       att_route_assignment_id = ac_route_assignment_id attendance_data,
                       att_patrol_point_id = ac_patrol_point_id attendance_data,
                       att_check_in_time = now, att_notes = ac_notes attendance_data\<rparr>
             \<and> route_assignments (snd (mark_attendance new_id now db attendance_data caller))
                 = route_assignments db
             \<and> find_one (\<lambda>a. ra_id a = ac_route_assignment_id attendance_data)
                 (route_assignments (snd (mark_attendance new_id now db attendance_data caller)))
                 = Some assignment"
  using mark_attendance_ok_dangling[OF assms(1,2,4,3), of new_id now] assms(2)
  by (simp add: new_attendance_def)

theorem mark_attendance_dangling_route_witness:
  "u_role ex_bob = ''officer''
   \<and> find_one (\<lambda>a. ra_id a = ac_route_assignment_id (ex_mark ''A3'' ''P1''))
       (route_assignments ex_db) = Some ex_a3
   \<and> find_one (\<lambda>r. rt_id r = ra_route_id ex_a3) (routes ex_db) = None
   \<and> find_one (\<lambda>t. att_route_assignment_id t = ac_route_assignment_id (ex_mark ''A3'' ''P1'')
                  \<and> att_patrol_point_id t = ac_patrol_point_id (ex_mark ''A3'' ''P1''))
       (attendance ex_db) = None
   \<and> mark_attendance ''t-1'' ex_now ex_db (ex_mark ''A3'' ''P1'') ex_bob
       = (Inr (new_attendance ''t-1'' ex_now (ex_mark ''A3'' ''P1'') ex_bob),
          ex_db\<lparr>attendance := [ex_att0, new_attendance ''t-1'' ex_now (ex_mark ''A3'' ''P1'') ex_bob]\<rparr>)
   \<and> ra_status ex_a3 = ''assigned''"
proof -
  have off: "u_role ex_bob = ''officer''"
    by (simp add: ex_defs)
  have a: "find_one (\<lambda>a. ra_id a = ac_route_assignment_id (ex_mark ''A3'' ''P1''))
       (route_assignments ex_db) = Some ex_a3"
    by (simp add: ex_defs)
  have r: "find_one (\<lambda>r. rt_id r = ra_route_id ex_a3) (routes ex_db) = None"
    by (simp add: ex_defs)
  have t: "find_one (\<lambda>t. att_route_assignment_id t = ac_route_assignment_id (ex_mark ''A3'' ''P1'')
                  \<and> att_patrol_point_id t = ac_patrol_point_id (ex_mark ''A3'' ''P1''))
       (attendance ex_db) = None"
    by (simp add: ex_defs)
  have att: "attendance ex_db = [ex_att0]"
    by (simp add: ex_db_def)
  from mark_attendance_dangling_route[OF off a r t, of "''t-1''" ex_now] off a r t
  show ?thesis
    by (auto simp: att new_attendance_def ex_mark_def ex_bob_def ex_a3_def ex_assignment_def)
qed

end
